theory Spec2Isabelle
  imports Complex_Main "HOL-Library.AList"
begin

section \<open>The pre-trained word2vec embedding of \<^verbatim>\<open>kashgari/embeddings/word_embedding.py\<close>\<close>

text \<open>
  The class \<^verbatim>\<open>WordEmbedding\<close> loads a word2vec table with gensim, builds a token
  index and a vector matrix from it, and assembles a Keras graph with one frozen
  embedding branch per sequence length. The three libraries are outside the file:
  \<^item> gensim's loader is a parameter \<open>load_word2vec_format\<close>, which either raises or
    returns a \<open>keyed_vectors\<close> value;
  \<^item> numpy arrays are lists of rows, and the two indexed assignments raise where
    numpy raises;
  \<^item> Keras layers and tensors are the nodes of a symbolic graph, and each Keras call
    either raises or returns its node.
  Methods mutate \<^verbatim>\<open>self\<close>; here they take the object and return either the updated
  object, or the exception together with the object as it was when the exception left
  the method.
\<close>

subsection \<open>Exceptions\<close>

datatype exn =
    LibraryError string  \<comment> \<open>whatever a library call raises, by its message\<close>
  | IndexError
  | ValueError
  | AttributeError

subsection \<open>Python dictionaries\<close>

text \<open>
  A \<^verbatim>\<open>dict\<close> keeps its keys in insertion order; storing under a key that is present
  replaces the value where the key stands, storing under a new key appends. That is
  \<^const>\<open>AList.update\<close> on an association list.
\<close>

type_synonym ('k, 'v) dict = "('k \<times> 'v) list"

definition dict_setitem :: "('k, 'v) dict \<Rightarrow> 'k \<Rightarrow> 'v \<Rightarrow> ('k, 'v) dict" where
  "dict_setitem d k v = AList.update k v d"

definition dict_get :: "('k, 'v) dict \<Rightarrow> 'k \<Rightarrow> 'v option" where
  "dict_get d k = map_of d k"

text \<open>\<^verbatim>\<open>dict(pairs)\<close> and the dictionary display \<^verbatim>\<open>{k1: v1, ...}\<close>: the pairs are
  stored from left to right.\<close>

definition dict_of_pairs :: "('k \<times> 'v) list \<Rightarrow> ('k, 'v) dict" where
  "dict_of_pairs ps = foldl (\<lambda>d (k, v). dict_setitem d k v) [] ps"

subsection \<open>The pre-processor and the loaded table\<close>

text \<open>The attributes of \<^verbatim>\<open>BaseProcessor\<close> that this file reads and writes.\<close>

record processor =
  token_pad :: string
  token_unk :: string
  token_bos :: string
  token_eos :: string
  token2idx :: "(string, nat) dict"
  idx2token :: "(nat, string) dict"

text \<open>
  The attributes of gensim's \<^verbatim>\<open>KeyedVectors\<close> that this file reads. \<open>vectors\<close> is the
  2-D array of the table, one row per word.
\<close>

record 'a keyed_vectors =
  index2word :: "string list"
  index2entity :: "string list"
  vector_size :: nat
  vectors :: "'a list list"

text \<open>
  What gensim's loader guarantees of the table it returns (it asserts the shape of
  \<open>vectors\<close> before returning, and keeps the first of two rows with the same word):
  the words are distinct, there is one row per word, and every row has
  \<open>vector_size\<close> entries.
\<close>

definition keyed_vectors_ok :: "'a keyed_vectors \<Rightarrow> bool" where
  "keyed_vectors_ok w2v \<longleftrightarrow>
     distinct (index2word w2v) \<and>
     length (vectors w2v) = length (index2word w2v) \<and>
     list_all (\<lambda>row. length row = vector_size w2v) (vectors w2v)"

definition reserved_tokens :: "processor \<Rightarrow> string list" where
  "reserved_tokens p = [token_pad p, token_unk p, token_bos p, token_eos p]"

subsection \<open>numpy\<close>

definition np_zeros :: "nat \<Rightarrow> nat \<Rightarrow> 'a::zero list list" where
  "np_zeros n m = replicate n (replicate m 0)"

text \<open>\<^verbatim>\<open>np.random.rand(n)\<close>: the next \<open>n\<close> samples of the generator, which is a
  parameter \<open>rng\<close> giving the samples by position.\<close>

definition random_rand :: "(nat \<Rightarrow> 'a) \<Rightarrow> nat \<Rightarrow> 'a list" where
  "random_rand rng n = map rng [0..<n]"

text \<open>\<^verbatim>\<open>m[i] = row\<close> for \<open>i \<ge> 0\<close>: an index past the last row raises.\<close>

definition set_row :: "'a list list \<Rightarrow> nat \<Rightarrow> 'a list \<Rightarrow> exn + 'a list list" where
  "set_row m i row = (if i < length m then Inr (m[i := row]) else Inl IndexError)"

text \<open>
  Broadcasting a 2-D value \<open>v\<close> to the shape \<open>(k, c)\<close>: each axis of \<open>v\<close> must have
  the target's length or length 1 (then it is repeated); anything else raises.
\<close>

definition broadcast_to :: "nat \<Rightarrow> nat \<Rightarrow> 'a list list \<Rightarrow> exn + 'a list list" where
  "broadcast_to k c v =
     (if (length v = k \<or> length v = 1) \<and> list_all (\<lambda>row. length row = c \<or> length row = 1) v
      then Inr (map (\<lambda>row. if length row = c then row else replicate c (hd row))
                  (if length v = k then v else replicate k (hd v)))
      else Inl ValueError)"

text \<open>\<^verbatim>\<open>m[i:] = v\<close> on a matrix with \<open>c\<close> columns: the slice has the rows from \<open>i\<close> on
  (none when \<open>m\<close> is shorter), and \<open>v\<close> is broadcast to its shape.\<close>

definition set_rows_from :: "'a list list \<Rightarrow> nat \<Rightarrow> nat \<Rightarrow> 'a list list \<Rightarrow> exn + 'a list list" where
  "set_rows_from m i c v =
     (case broadcast_to (length m - i) c v of
        Inl e \<Rightarrow> Inl e
      | Inr rows \<Rightarrow> Inr (take i m @ rows))"

subsection \<open>Keras\<close>

datatype 'a embedding_layer =
  Embedding (input_dim: nat) (output_dim: nat) (weights: "'a list list list")
    (trainable: bool) (layer_name: string)

datatype 'a tensor =
    Input "nat option list" string  \<comment> \<open>\<^verbatim>\<open>L.Input(shape=..., name=...)\<close>\<close>
  | Embedded "'a embedding_layer" "'a tensor"  \<comment> \<open>an embedding layer called on a tensor\<close>
  | Concatenated string "'a tensor list"  \<comment> \<open>\<^verbatim>\<open>L.Concatenate(name=...)\<close> called on tensors\<close>

text \<open>The second argument of \<^verbatim>\<open>keras.Model\<close> is a tensor or a list of tensors.\<close>

datatype 'a model_outputs = OneTensor "'a tensor" | TensorList "'a tensor list"

record 'a keras_model =
  model_inputs :: "'a tensor list"
  model_outputs :: "'a model_outputs"

fun layers_of_tensor :: "'a tensor \<Rightarrow> 'a embedding_layer list" where
  "layers_of_tensor (Input shape name) = []"
| "layers_of_tensor (Embedded layer t) = layer # layers_of_tensor t"
| "layers_of_tensor (Concatenated name ts) = concat (map layers_of_tensor ts)"

fun embedding_layers :: "'a model_outputs \<Rightarrow> 'a embedding_layer list" where
  "embedding_layers (OneTensor t) = layers_of_tensor t"
| "embedding_layers (TensorList ts) = concat (map layers_of_tensor ts)"



text \<open>
  The shape of a tensor without the batch axis, as \<^verbatim>\<open>shape=\<close> gives it for an input
  (\<open>None\<close> is an unknown length): an embedding adds an axis of its output dimension, and
  a concatenation keeps the axes of its first argument but the last, whose length is
  left unknown here.
\<close>

fun tensor_shape :: "'a tensor \<Rightarrow> nat option list" where
  "tensor_shape (Input shape name) = shape"
| "tensor_shape (Embedded layer t) = tensor_shape t @ [Some (output_dim layer)]"
| "tensor_shape (Concatenated name ts) =
     (case map tensor_shape ts of
        [] \<Rightarrow> []
      | s # ss \<Rightarrow> butlast s @ [None])"

text \<open>
  Keras validates its arguments and raises where it refuses them. The library is not
  part of this file, so what it refuses is a parameter: for each of the five calls that
  \<^verbatim>\<open>_build_model\<close> makes, the exception the call raises on these arguments, or \<open>None\<close>
  when the call returns. A call that returns gives the node of the graph.
  \<^item> \<open>input_raises\<close>: \<^verbatim>\<open>L.Input(shape=..., name=...)\<close>;
  \<^item> \<open>embedding_raises\<close>: the constructor \<^verbatim>\<open>L.Embedding(...)\<close>;
  \<^item> \<open>call_raises\<close>: the embedding layer called on a tensor, which builds the layer and
    sets its weights;
  \<^item> \<open>concatenate_raises\<close>: \<^verbatim>\<open>L.Concatenate(name=...)\<close> and its call on a list of tensors;
  \<^item> \<open>model_raises\<close>: \<^verbatim>\<open>keras.Model(inputs, outputs)\<close>.
\<close>

record 'a keras =
  input_raises :: "nat option list \<Rightarrow> string \<Rightarrow> exn option"
  embedding_raises :: "'a embedding_layer \<Rightarrow> exn option"
  call_raises :: "'a embedding_layer \<Rightarrow> 'a tensor \<Rightarrow> exn option"
  concatenate_raises :: "string \<Rightarrow> 'a tensor list \<Rightarrow> exn option"
  model_raises :: "'a tensor list \<Rightarrow> 'a model_outputs \<Rightarrow> exn option"

text \<open>The decimal digits of a number, as an f-string prints it.\<close>

fun string_of_nat :: "nat \<Rightarrow> string" where
  "string_of_nat n =
     (if n < 10 then [char_of (48 + n)]
      else string_of_nat (n div 10) @ [char_of (48 + n mod 10)])"

declare string_of_nat.simps [simp del]

subsection \<open>The embedding object\<close>

text \<open>
  The attributes of a \<^verbatim>\<open>WordEmbedding\<close>. Those that only
  \<^verbatim>\<open>_build_token2idx_from_w2v\<close> and \<^verbatim>\<open>_build_model\<close> create are \<open>None\<close> until they
  are assigned; reading one before that raises \<^verbatim>\<open>AttributeError\<close>. The
  constructor of the base class stores a processor and the tuple of sequence lengths
  (\<open>None\<close> for a variable length).
\<close>

record ('a, 'kw) word_embedding =
  w2v_path :: string
  w2v_kwargs :: 'kw
  w2v_model_loaded :: bool
  embedding_size :: nat
  sequence_length :: "nat option list"
  processor :: processor
  w2v_vector_matrix :: "'a list list option"
  w2v_token2idx :: "(string, nat) dict option"
  w2v_top_words :: "string list option"
  embed_model :: "'a keras_model option"

type_synonym ('a, 'kw) outcome =
  "(exn \<times> ('a, 'kw) word_embedding) + ('a, 'kw) word_embedding"

fun state_after :: "('a, 'kw) outcome \<Rightarrow> ('a, 'kw) word_embedding" where
  "state_after (Inl (e, self)) = self"
| "state_after (Inr self) = self"

subsection \<open>\<^verbatim>\<open>_build_token2idx_from_w2v\<close>\<close>

text \<open>The dictionary display with the four reserved tokens.\<close>

definition initial_token2idx :: "processor \<Rightarrow> (string, nat) dict" where
  "initial_token2idx p =
     dict_of_pairs [(token_pad p, 0), (token_unk p, 1), (token_bos p, 2), (token_eos p, 3)]"

text \<open>\<^verbatim>\<open>for token in w2v.index2word: token2idx[token] = len(token2idx)\<close>\<close>

fun add_tokens :: "(string, nat) dict \<Rightarrow> string list \<Rightarrow> (string, nat) dict" where
  "add_tokens t2i [] = t2i"
| "add_tokens t2i (token # rest) = add_tokens (dict_setitem t2i token (length t2i)) rest"

definition token2idx_of_w2v :: "processor \<Rightarrow> 'a keyed_vectors \<Rightarrow> (string, nat) dict" where
  "token2idx_of_w2v p w2v = add_tokens (initial_token2idx p) (index2word w2v)"

text \<open>The three lines that make the matrix, for a dictionary of \<open>n\<close> entries.\<close>

definition vector_matrix_of_w2v ::
  "(nat \<Rightarrow> 'a) \<Rightarrow> nat \<Rightarrow> 'a::zero keyed_vectors \<Rightarrow> exn + 'a list list" where
  "vector_matrix_of_w2v rng n w2v =
     (case set_row (np_zeros n (vector_size w2v)) 1 (random_rand rng (vector_size w2v)) of
        Inl e \<Rightarrow> Inl e
      | Inr vector_matrix \<Rightarrow> set_rows_from vector_matrix 4 (vector_size w2v) (vectors w2v))"

definition build_token2idx_from_w2v ::
  "(string \<Rightarrow> 'kw \<Rightarrow> exn + 'a keyed_vectors) \<Rightarrow> (nat \<Rightarrow> 'a) \<Rightarrow>
     ('a::zero, 'kw) word_embedding \<Rightarrow> ('a, 'kw) outcome" where
  "build_token2idx_from_w2v load_word2vec_format rng self =
     (case load_word2vec_format (w2v_path self) (w2v_kwargs self) of
        Inl e \<Rightarrow> Inl (e, self)
      | Inr w2v \<Rightarrow>
          let token2idx = token2idx_of_w2v (processor self) w2v in
          (case vector_matrix_of_w2v rng (length token2idx) w2v of
             Inl e \<Rightarrow> Inl (e, self)
           | Inr vector_matrix \<Rightarrow>
               Inr (self
                 \<lparr> embedding_size := vector_size w2v,
                   w2v_vector_matrix := Some vector_matrix,
                   w2v_token2idx := Some token2idx,
                   w2v_top_words := Some (take 50 (index2entity w2v)),
                   w2v_model_loaded := True,
                   processor := (processor self)
                     \<lparr> token2idx := token2idx,
                       idx2token := dict_of_pairs (map (\<lambda>(key, value). (value, key)) token2idx) \<rparr> \<rparr>)))"

subsection \<open>\<^verbatim>\<open>_build_model\<close>\<close>

text \<open>\<^verbatim>\<open>L.Input(shape=(seq_len,), name=f'input_{index}')\<close>\<close>

definition input_tensor :: "nat \<Rightarrow> nat option \<Rightarrow> 'a tensor" where
  "input_tensor index seq_len = Input [seq_len] (''input_'' @ string_of_nat index)"

text \<open>\<^verbatim>\<open>L.Embedding(token_count, embedding_size, weights=[matrix], trainable=False,
  name=f'layer_embedding_{index}')\<close>\<close>

definition layer_embedding :: "nat \<Rightarrow> nat \<Rightarrow> 'a list list \<Rightarrow> nat \<Rightarrow> 'a embedding_layer" where
  "layer_embedding tc esize matrix index =
     Embedding tc esize [matrix] False (''layer_embedding_'' @ string_of_nat index)"

text \<open>
  The loop over \<^verbatim>\<open>enumerate(self.sequence_length)\<close>, with the two lists it appends
  to. \<open>tc\<close> is \<^verbatim>\<open>self.token_count\<close>. Each round calls \<^verbatim>\<open>L.Input\<close>, reads
  \<^verbatim>\<open>self.w2v_vector_matrix\<close> (which raises when the attribute has not been assigned),
  calls \<^verbatim>\<open>L.Embedding\<close> and then the layer on the input; each of the three library
  calls may raise.
\<close>

fun build_branches ::
  "'a keras \<Rightarrow> nat \<Rightarrow> ('a, 'kw) word_embedding \<Rightarrow> (nat \<times> nat option) list \<Rightarrow>
     'a tensor list \<times> 'a tensor list \<Rightarrow> exn + ('a tensor list \<times> 'a tensor list)" where
  "build_branches K tc self [] (input_layers, output_layers) = Inr (input_layers, output_layers)"
| "build_branches K tc self ((index, seq_len) # rest) (input_layers, output_layers) =
     (case input_raises K [seq_len] (''input_'' @ string_of_nat index) of
        Some e \<Rightarrow> Inl e
      | None \<Rightarrow>
     (case w2v_vector_matrix self of
        None \<Rightarrow> Inl AttributeError
      | Some matrix \<Rightarrow>
     (case embedding_raises K (layer_embedding tc (embedding_size self) matrix index) of
        Some e \<Rightarrow> Inl e
      | None \<Rightarrow>
     (case call_raises K (layer_embedding tc (embedding_size self) matrix index)
             (input_tensor index seq_len) of
        Some e \<Rightarrow> Inl e
      | None \<Rightarrow>
          let embedded_tensor =
            Embedded (layer_embedding tc (embedding_size self) matrix index)
              (input_tensor index seq_len)
          in build_branches K tc self rest
               (input_layers @ [input_tensor index seq_len],
                output_layers @ [embedded_tensor])))))"

text \<open>
  \<open>token_count\<close> is a property of the base class, which is not part of this file: it
  is a parameter, read on the object. An exception of any call leaves the method before
  \<^verbatim>\<open>self.embed_model\<close> is assigned.
\<close>

definition build_model ::
  "'a keras \<Rightarrow> (('a, 'kw) word_embedding \<Rightarrow> nat) \<Rightarrow> ('a, 'kw) word_embedding \<Rightarrow>
     ('a, 'kw) outcome" where
  "build_model K token_count self =
     (if token_count self = 0 then Inr self
      else
        (case build_branches K (token_count self) self (enumerate 0 (sequence_length self))
                ([], []) of
           Inl e \<Rightarrow> Inl (e, self)
         | Inr (input_layers, output_layers) \<Rightarrow>
             (case
                (if length output_layers > 1
                 then
                   (case concatenate_raises K ''layer_concatenate'' output_layers of
                      Some e \<Rightarrow> Inl e
                    | None \<Rightarrow> Inr (OneTensor (Concatenated ''layer_concatenate'' output_layers)))
                 else Inr (TensorList output_layers)) of
                Inl e \<Rightarrow> Inl (e, self)
              | Inr output \<Rightarrow>
                  (case model_raises K input_layers output of
                     Some e \<Rightarrow> Inl (e, self)
                   | None \<Rightarrow>
                       Inr (self \<lparr> embed_model :=
                         Some \<lparr> model_inputs = input_layers, model_outputs = output \<rparr> \<rparr>)))))"

text \<open>
  The inputs and the branch outputs that the loop makes for an object whose matrix is
  \<open>matrix\<close>, and the value passed to \<^verbatim>\<open>keras.Model\<close> as its outputs.
\<close>

definition branch_inputs :: "('a, 'kw) word_embedding \<Rightarrow> 'a tensor list" where
  "branch_inputs self =
     map (\<lambda>(index, seq_len). input_tensor index seq_len) (enumerate 0 (sequence_length self))"

definition branch_outputs :: "nat \<Rightarrow> ('a, 'kw) word_embedding \<Rightarrow> 'a list list \<Rightarrow> 'a tensor list" where
  "branch_outputs tc self matrix =
     map (\<lambda>(index, seq_len).
        Embedded (layer_embedding tc (embedding_size self) matrix index)
          (input_tensor index seq_len))
       (enumerate 0 (sequence_length self))"

definition merged_output :: "nat \<Rightarrow> ('a, 'kw) word_embedding \<Rightarrow> 'a list list \<Rightarrow> 'a model_outputs" where
  "merged_output tc self matrix =
     (if 1 < length (sequence_length self)
      then OneTensor (Concatenated ''layer_concatenate'' (branch_outputs tc self matrix))
      else TensorList (branch_outputs tc self matrix))"

text \<open>
  The library accepts the object: none of the calls that \<^verbatim>\<open>_build_model\<close> makes on it
  raises. The concatenation is only called for more than one sequence length.
\<close>

definition keras_accepts ::
  "'a keras \<Rightarrow> nat \<Rightarrow> ('a, 'kw) word_embedding \<Rightarrow> 'a list list \<Rightarrow> bool" where
  "keras_accepts K tc self matrix \<longleftrightarrow>
     list_all (\<lambda>(index, seq_len).
         input_raises K [seq_len] (''input_'' @ string_of_nat index) = None \<and>
         embedding_raises K (layer_embedding tc (embedding_size self) matrix index) = None \<and>
         call_raises K (layer_embedding tc (embedding_size self) matrix index)
           (input_tensor index seq_len) = None)
       (enumerate 0 (sequence_length self)) \<and>
     (1 < length (sequence_length self) \<longrightarrow>
        concatenate_raises K ''layer_concatenate'' (branch_outputs tc self matrix) = None) \<and>
     model_raises K (branch_inputs self) (merged_output tc self matrix) = None"

subsection \<open>\<^verbatim>\<open>analyze_corpus\<close>\<close>

text \<open>
  \<^verbatim>\<open>utils.wrap_as_tuple\<close> and the base class's \<^verbatim>\<open>analyze_corpus\<close> are outside the
  file: both are parameters, and both may raise.
\<close>

definition analyze_corpus ::
  "(string \<Rightarrow> 'kw \<Rightarrow> exn + 'a keyed_vectors) \<Rightarrow> (nat \<Rightarrow> 'a) \<Rightarrow>
     ('x \<Rightarrow> exn + 'xt) \<Rightarrow> ('y \<Rightarrow> exn + 'yt) \<Rightarrow>
     ('xt \<Rightarrow> 'yt \<Rightarrow> ('a, 'kw) word_embedding \<Rightarrow> ('a, 'kw) outcome) \<Rightarrow>
     'x \<Rightarrow> 'y \<Rightarrow> ('a::zero, 'kw) word_embedding \<Rightarrow> ('a, 'kw) outcome" where
  "analyze_corpus load_word2vec_format rng wrap_x wrap_y super_analyze_corpus x y self =
     (case wrap_x x of
        Inl e \<Rightarrow> Inl (e, self)
      | Inr x \<Rightarrow>
     (case wrap_y y of
        Inl e \<Rightarrow> Inl (e, self)
      | Inr y \<Rightarrow>
          if \<not> w2v_model_loaded self then
            (case build_token2idx_from_w2v load_word2vec_format rng self of
               Inl err \<Rightarrow> Inl err
             | Inr self \<Rightarrow> super_analyze_corpus x y self)
          else super_analyze_corpus x y self))"

text \<open>
  A sequence of \<^verbatim>\<open>analyze_corpus\<close> calls on one object. Each call comes with the
  loader and the generator as they are at that moment; a call that raises leaves the
  object as it was when the exception left the method, and the next call goes on from
  there.
\<close>

fun analyze_corpus_calls ::
  "('x \<Rightarrow> exn + 'xt) \<Rightarrow> ('y \<Rightarrow> exn + 'yt) \<Rightarrow>
     ('xt \<Rightarrow> 'yt \<Rightarrow> ('a, 'kw) word_embedding \<Rightarrow> ('a, 'kw) outcome) \<Rightarrow>
     ((string \<Rightarrow> 'kw \<Rightarrow> exn + 'a keyed_vectors) \<times> (nat \<Rightarrow> 'a) \<times> 'x \<times> 'y) list \<Rightarrow>
     ('a::zero, 'kw) word_embedding \<Rightarrow> ('a, 'kw) word_embedding" where
  "analyze_corpus_calls wrap_x wrap_y super_analyze_corpus [] self = self"
| "analyze_corpus_calls wrap_x wrap_y super_analyze_corpus ((load, rng, x, y) # rest) self =
     analyze_corpus_calls wrap_x wrap_y super_analyze_corpus rest
       (state_after (analyze_corpus load rng wrap_x wrap_y super_analyze_corpus x y self))"

subsection \<open>Example inputs\<close>

text \<open>A processor with the default reserved tokens, a table of two words, and an
  object with two sequence lengths, both 12.\<close>

definition example_processor :: processor where
  "example_processor =
     \<lparr> token_pad = ''<PAD>'', token_unk = ''<UNK>'', token_bos = ''<BOS>'', token_eos = ''<EOS>'',
       token2idx = [], idx2token = [] \<rparr>"

definition example_w2v :: "real keyed_vectors" where
  "example_w2v =
     \<lparr> index2word = [''the'', ''cat''], index2entity = [''the'', ''cat''], vector_size = 2,
       vectors = [[1/2, -1], [3, 1/4]] \<rparr>"

definition clashing_w2v :: "real keyed_vectors" where
  "clashing_w2v =
     \<lparr> index2word = [''<PAD>'', ''cat''], index2entity = [''<PAD>'', ''cat''], vector_size = 2,
       vectors = [[1/2, -1], [3, 1/4]] \<rparr>"

definition example_rng :: "nat \<Rightarrow> real" where
  "example_rng i = 1 / (2 + real i)"

definition example_embedding :: "(real, unit) word_embedding" where
  "example_embedding =
     \<lparr> w2v_path = ''sample_w2v.txt'', w2v_kwargs = (), w2v_model_loaded = False,
       embedding_size = 0, sequence_length = [Some 12, Some 12], processor = example_processor,
       w2v_vector_matrix = None, w2v_token2idx = None, w2v_top_words = None,
       embed_model = None \<rparr>"

definition example_load :: "string \<Rightarrow> unit \<Rightarrow> exn + real keyed_vectors" where
  "example_load path kwargs = Inr example_w2v"

definition failing_load :: "string \<Rightarrow> unit \<Rightarrow> exn + real keyed_vectors" where
  "failing_load path kwargs = Inl (LibraryError ''No such file or directory'')"

text \<open>The token count as the number of entries of the processor's dictionary, the
  example object after \<^verbatim>\<open>_build_token2idx_from_w2v\<close>, and the matrix it then holds.\<close>

definition example_token_count :: "(real, unit) word_embedding \<Rightarrow> nat" where
  "example_token_count self = length (token2idx (processor self))"

definition built_embedding :: "(real, unit) word_embedding" where
  "built_embedding =
     state_after (build_token2idx_from_w2v example_load example_rng example_embedding)"

definition built_matrix :: "real list list" where
  "built_matrix = [[0, 0], [1/2, 1/3], [0, 0], [0, 0], [1/2, -1], [3, 1/4]]"

text \<open>A table whose only word is the pad token.\<close>

definition pad_only_w2v :: "real keyed_vectors" where
  "pad_only_w2v =
     \<lparr> index2word = [''<PAD>''], index2entity = [''<PAD>''], vector_size = 2,
       vectors = [[5, 6]] \<rparr>"

text \<open>
  A library for the examples, with the shape checks of Keras that matter here: an
  embedding needs positive dimensions, its weights must be one matrix of shape
  \<open>(input_dim, output_dim)\<close>, and a concatenation needs at least two tensors that agree
  on every axis but the last.
\<close>

definition example_keras :: "'a keras" where
  "example_keras =
     \<lparr> input_raises = (\<lambda>shape name. None),
       embedding_raises = (\<lambda>layer.
         if input_dim layer = 0 \<or> output_dim layer = 0 then Some ValueError else None),
       call_raises = (\<lambda>layer t.
         if list_all (\<lambda>w. length w = input_dim layer \<and>
               list_all (\<lambda>row. length row = output_dim layer) w) (weights layer)
         then None else Some ValueError),
       concatenate_raises = (\<lambda>name ts.
         if 2 \<le> length ts \<and>
            list_all (\<lambda>t. butlast (tensor_shape t) = butlast (tensor_shape (hd ts))) ts
         then None else Some ValueError),
       model_raises = (\<lambda>inputs outputs. None) \<rparr>"

text \<open>The built example object with the sequence lengths 12 and 20.\<close>

definition uneven_embedding :: "(real, unit) word_embedding" where
  "uneven_embedding = built_embedding \<lparr> sequence_length := [Some 12, Some 20] \<rparr>"

text \<open>A base-class \<^verbatim>\<open>analyze_corpus\<close> for the examples: it rebuilds the model.\<close>

definition example_super_analyze_corpus ::
  "unit \<Rightarrow> unit \<Rightarrow> (real, unit) word_embedding \<Rightarrow> (real, unit) outcome" where
  "example_super_analyze_corpus x y self = build_model example_keras example_token_count self"

section \<open>Properties\<close>

subsection \<open>Dictionaries and arrays\<close>

lemma update_fresh:
  "k \<notin> fst ` set d \<Longrightarrow> AList.update k v d = d @ [(k, v)]"
  by (induction d) auto

lemma dict_setitem_fresh:
  "k \<notin> fst ` set d \<Longrightarrow> dict_setitem d k v = d @ [(k, v)]"
  by (simp add: dict_setitem_def update_fresh)

lemma add_tokens_fresh:
  "distinct ts \<Longrightarrow> set ts \<inter> fst ` set d = {} \<Longrightarrow>
     add_tokens d ts = d @ zip ts [length d..<length d + length ts]"
proof (induction ts arbitrary: d)
  case Nil
  then show ?case by simp
next
  case (Cons t ts)
  from Cons.prems have fresh: "t \<notin> fst ` set d" by auto
  have step: "dict_setitem d t (length d) = d @ [(t, length d)]"
    using fresh by (rule dict_setitem_fresh)
  have upt: "[length d..<length d + length (t # ts)] =
      length d # [Suc (length d)..<Suc (length d) + length ts]"
    by (simp add: upt_conv_Cons del: upt_Suc)
  have ih: "add_tokens (d @ [(t, length d)]) ts =
      (d @ [(t, length d)]) @ zip ts [Suc (length d)..<Suc (length d) + length ts]"
    using Cons.IH [of "d @ [(t, length d)]"] Cons.prems by auto
  show ?case
    unfolding add_tokens.simps step ih upt by simp
qed

lemma dict_of_pairs_foldl:
  "distinct (map fst ps) \<Longrightarrow> fst ` set ps \<inter> fst ` set acc = {} \<Longrightarrow>
     foldl (\<lambda>d (k, v). dict_setitem d k v) acc ps = acc @ ps"
proof (induction ps arbitrary: acc)
  case Nil
  then show ?case by simp
next
  case (Cons p ps)
  obtain k v where p: "p = (k, v)" by (cases p)
  from Cons.prems p have "k \<notin> fst ` set acc" by auto
  then have step: "dict_setitem acc k v = acc @ [(k, v)]" by (rule dict_setitem_fresh)
  have "foldl (\<lambda>d (k, v). dict_setitem d k v) (acc @ [(k, v)]) ps = (acc @ [(k, v)]) @ ps"
    using Cons.prems p by (intro Cons.IH) auto
  then show ?case by (simp add: p step)
qed

lemma dict_of_pairs_distinct:
  "distinct (map fst ps) \<Longrightarrow> dict_of_pairs ps = ps"
  using dict_of_pairs_foldl [of ps "[]"] by (simp add: dict_of_pairs_def)

lemma initial_token2idx_distinct:
  "distinct (reserved_tokens p) \<Longrightarrow> initial_token2idx p = zip (reserved_tokens p) [0, 1, 2, 3]"
  unfolding initial_token2idx_def reserved_tokens_def
  by (subst dict_of_pairs_distinct) auto

lemma token2idx_of_w2v_eq:
  assumes "distinct (reserved_tokens p)" "distinct (index2word w)"
    "set (index2word w) \<inter> set (reserved_tokens p) = {}"
  shows "token2idx_of_w2v p w =
    zip (reserved_tokens p @ index2word w) [0..<4 + length (index2word w)]"
proof -
  have init: "initial_token2idx p = zip (reserved_tokens p) [0, 1, 2, 3]"
    using assms(1) by (rule initial_token2idx_distinct)
  have len: "length (initial_token2idx p) = 4"
    by (simp add: init reserved_tokens_def)
  have keys: "fst ` set (initial_token2idx p) = set (reserved_tokens p)"
    by (simp add: init reserved_tokens_def)
  have "add_tokens (initial_token2idx p) (index2word w) =
      initial_token2idx p @ zip (index2word w) [4..<4 + length (index2word w)]"
    using add_tokens_fresh [of "index2word w" "initial_token2idx p"] assms(2,3)
    by (simp add: len keys)
  moreover have "[0..<4 + length (index2word w)] = [0..<4] @ [4..<4 + length (index2word w)]"
    by (rule upt_add_eq_append) simp
  moreover have "[0..<4] = [0, 1, 2, 3::nat]"
    by (simp add: upt_conv_Cons)
  ultimately show ?thesis
    by (simp add: token2idx_of_w2v_def init reserved_tokens_def)
qed

lemma broadcast_to_same:
  "length v = k \<Longrightarrow> list_all (\<lambda>row. length row = c) v \<Longrightarrow> broadcast_to k c v = Inr v"
  unfolding broadcast_to_def
  by (auto simp: list_all_iff intro: map_idI elim!: )

lemma vector_matrix_of_w2v_eq:
  assumes "keyed_vectors_ok w" "n = 4 + length (index2word w)"
  shows "vector_matrix_of_w2v rng n w =
    Inr ([replicate (vector_size w) 0, random_rand rng (vector_size w),
          replicate (vector_size w) 0, replicate (vector_size w) 0] @ vectors w)"
proof -
  let ?z = "replicate (vector_size w) 0 :: 'a list"
  let ?k = "length (index2word w)"
  have zeros: "np_zeros n (vector_size w) = [?z, ?z, ?z, ?z] @ replicate ?k ?z"
    by (simp add: np_zeros_def assms(2) replicate_add [symmetric] numeral_eq_Suc)
  have row: "set_row (np_zeros n (vector_size w)) (Suc 0) (random_rand rng (vector_size w)) =
      Inr ([?z, random_rand rng (vector_size w), ?z, ?z] @ replicate ?k ?z)"
    by (simp add: zeros set_row_def)
  have bc: "broadcast_to ?k (vector_size w) (vectors w) = Inr (vectors w)"
    using assms(1) by (intro broadcast_to_same) (simp_all add: keyed_vectors_ok_def)
  show ?thesis
    by (simp add: vector_matrix_of_w2v_def row set_rows_from_def bc)
qed

subsection \<open>What \<^verbatim>\<open>_build_token2idx_from_w2v\<close> leaves in the object\<close>

lemma swap_zip: "map (\<lambda>(key, value). (value, key)) (zip xs ys) = zip ys xs"
  by (induction xs ys rule: list_induct2') auto

lemma build_token2idx_from_w2v_result:
  assumes load: "load (w2v_path self) (w2v_kwargs self) = Inr w2v"
    and ok: "keyed_vectors_ok w2v"
    and res: "distinct (reserved_tokens (processor self))"
    and disj: "set (index2word w2v) \<inter> set (reserved_tokens (processor self)) = {}"
  shows "build_token2idx_from_w2v load rng self =
    Inr (self
      \<lparr> embedding_size := vector_size w2v,
        w2v_vector_matrix :=
          Some ([replicate (vector_size w2v) 0, random_rand rng (vector_size w2v),
                 replicate (vector_size w2v) 0, replicate (vector_size w2v) 0] @ vectors w2v),
        w2v_token2idx :=
          Some (zip (reserved_tokens (processor self) @ index2word w2v)
                  [0..<4 + length (index2word w2v)]),
        w2v_top_words := Some (take 50 (index2entity w2v)),
        w2v_model_loaded := True,
        processor := (processor self)
          \<lparr> token2idx := zip (reserved_tokens (processor self) @ index2word w2v)
                          [0..<4 + length (index2word w2v)],
            idx2token := zip [0..<4 + length (index2word w2v)]
                          (reserved_tokens (processor self) @ index2word w2v) \<rparr> \<rparr>)"
proof -
  let ?keys = "reserved_tokens (processor self) @ index2word w2v"
  let ?n = "4 + length (index2word w2v)"
  have t2i: "token2idx_of_w2v (processor self) w2v = zip ?keys [0..<?n]"
    using res ok disj by (intro token2idx_of_w2v_eq) (simp_all add: keyed_vectors_ok_def)
  have len: "length (zip ?keys [0..<?n]) = ?n"
    by (simp add: reserved_tokens_def)
  have matrix: "vector_matrix_of_w2v rng ?n w2v =
      Inr ([replicate (vector_size w2v) 0, random_rand rng (vector_size w2v),
            replicate (vector_size w2v) 0, replicate (vector_size w2v) 0] @ vectors w2v)"
    using ok by (rule vector_matrix_of_w2v_eq) simp
  have "distinct (map fst (zip [0..<?n] ?keys))"
    by (simp add: reserved_tokens_def)
  then have idx: "dict_of_pairs (zip [0..<?n] ?keys) = zip [0..<?n] ?keys"
    by (rule dict_of_pairs_distinct)
  show ?thesis
    unfolding build_token2idx_from_w2v_def load t2i Let_def sum.case len matrix swap_zip idx
    by (rule refl)
qed

lemma dict_get_zip_nth:
  "distinct ks \<Longrightarrow> length ks = length vs \<Longrightarrow> i < length ks \<Longrightarrow>
     dict_get (zip ks vs) (ks ! i) = Some (vs ! i)"
  unfolding dict_get_def by (rule map_of_zip_nth) simp_all

lemma keys_distinct:
  assumes "keyed_vectors_ok w2v" "distinct (reserved_tokens p)"
    "set (index2word w2v) \<inter> set (reserved_tokens p) = {}"
  shows "distinct (reserved_tokens p @ index2word w2v)"
  using assms by (auto simp: keyed_vectors_ok_def)

lemma dict_get_zip_swap:
  assumes "distinct ks" "distinct vs" "length ks = length vs"
  shows "dict_get (zip ks vs) k = Some v \<longleftrightarrow> dict_get (zip vs ks) v = Some k"
proof -
  have "dict_get (zip ks vs) k = Some v \<longleftrightarrow> (k, v) \<in> set (zip ks vs)"
    unfolding dict_get_def using assms by (intro map_of_eq_Some_iff) simp
  also have "\<dots> \<longleftrightarrow> (v, k) \<in> set (zip vs ks)"
    by (auto simp: in_set_zip)
  also have "\<dots> \<longleftrightarrow> dict_get (zip vs ks) v = Some k"
    unfolding dict_get_def using assms by (intro map_of_eq_Some_iff [symmetric]) simp
  finally show ?thesis .
qed

lemma broadcast_to_length:
  "broadcast_to k c v = Inr rows \<Longrightarrow> length rows = k"
  by (auto simp: broadcast_to_def split: if_splits)

lemma vector_matrix_of_w2v_reserved_rows:
  assumes "vector_matrix_of_w2v rng n w2v = Inr matrix"
  shows "length matrix = n \<and> 1 < n \<and>
    matrix ! 1 = random_rand rng (vector_size w2v) \<and>
    (\<forall>i < n. i < 4 \<and> i \<noteq> 1 \<longrightarrow> matrix ! i = replicate (vector_size w2v) 0)"
proof -
  let ?c = "vector_size w2v"
  let ?m = "(np_zeros n ?c) [1 := random_rand rng ?c]"
  from assms have n: "1 < n"
    by (auto simp: vector_matrix_of_w2v_def set_row_def np_zeros_def split: if_splits)
  then have row: "set_row (np_zeros n ?c) 1 (random_rand rng ?c) = Inr ?m"
    by (simp add: set_row_def np_zeros_def)
  from assms obtain rows where rows: "broadcast_to (length ?m - 4) ?c (vectors w2v) = Inr rows"
    and matrix: "matrix = take 4 ?m @ rows"
    unfolding vector_matrix_of_w2v_def row set_rows_from_def
    by (auto split: sum.splits)
  have len_m: "length (np_zeros n ?c) = n"
    by (simp add: np_zeros_def)
  have len_rows: "length rows = n - 4"
    using broadcast_to_length [OF rows] by (simp add: len_m)
  have len: "length matrix = n"
    by (simp add: matrix len_m len_rows)
  have low: "matrix ! i = ?m ! i" if "i < n" "i < 4" for i
    using that by (simp add: matrix nth_append len_m)
  have one: "matrix ! 1 = random_rand rng ?c"
    using n low [of 1] by (simp add: np_zeros_def)
  have others: "matrix ! i = replicate ?c 0" if "i < n" "i < 4" "i \<noteq> 1" for i
    using that low [of i] by (simp add: np_zeros_def)
  show ?thesis
    using len n one others by blast
qed

lemma build_token2idx_from_w2v_matrix:
  assumes "load (w2v_path self) (w2v_kwargs self) = Inr w2v"
    and "build_token2idx_from_w2v load rng self = Inr self'"
  shows "\<exists>matrix.
    vector_matrix_of_w2v rng (length (token2idx_of_w2v (processor self) w2v)) w2v = Inr matrix \<and>
    w2v_vector_matrix self' = Some matrix"
  using assms(2) unfolding build_token2idx_from_w2v_def assms(1)
  by (auto simp: Let_def split: sum.splits)

text \<open>A table whose only word is the pad token: the method returns a matrix of four
  rows, and the loaded vector is in none of them.\<close>

lemma pad_only_table_places_no_vector:
  "w2v_vector_matrix
     (state_after (build_token2idx_from_w2v (\<lambda>path kwargs. Inr pad_only_w2v) example_rng
        example_embedding)) =
   Some [[0, 0], [1/2, 1/3], [0, 0], [0, 0]]"
  by (simp add: build_token2idx_from_w2v_def token2idx_of_w2v_def initial_token2idx_def
      dict_of_pairs_def dict_setitem_def vector_matrix_of_w2v_def np_zeros_def set_row_def
      set_rows_from_def broadcast_to_def random_rand_def example_rng_def pad_only_w2v_def
      example_embedding_def example_processor_def Let_def numeral_eq_Suc)

subsection \<open>Claims about \<^verbatim>\<open>_build_token2idx_from_w2v\<close>\<close>

text \<open>
  C1. When the loader returns a table that holds none of the four reserved tokens,
  \<^verbatim>\<open>_build_token2idx_from_w2v\<close> returns, and the dictionary it stores maps the pad
  token to 0, the unknown token to 1, the begin token to 2, the end token to 3, and
  the loaded words, in the loader's order, to 4, 5, ... The four reserved tokens are
  four different strings, and the table is as gensim returns it.
\<close>

theorem token2idx_reserved_then_loaded:
  assumes "load_word2vec_format (w2v_path self) (w2v_kwargs self) = Inr w2v"
    and "keyed_vectors_ok w2v"
    and "distinct (reserved_tokens (processor self))"
    and "set (index2word w2v) \<inter> set (reserved_tokens (processor self)) = {}"
  shows "\<exists>self' t2i.
     build_token2idx_from_w2v load_word2vec_format rng self = Inr self' \<and>
     w2v_token2idx self' = Some t2i \<and>
     dict_get t2i (token_pad (processor self)) = Some 0 \<and>
     dict_get t2i (token_unk (processor self)) = Some 1 \<and>
     dict_get t2i (token_bos (processor self)) = Some 2 \<and>
     dict_get t2i (token_eos (processor self)) = Some 3 \<and>
     map (dict_get t2i) (index2word w2v) = map Some [4..<4 + length (index2word w2v)]"
proof -
  let ?p = "processor self"
  let ?keys = "reserved_tokens ?p @ index2word w2v"
  let ?n = "4 + length (index2word w2v)"
  let ?t2i = "zip ?keys [0..<?n]"
  have dist: "distinct ?keys"
    using assms(2-4) by (rule keys_distinct)
  have len: "length ?keys = length [0..<?n]"
    by (simp add: reserved_tokens_def)
  have get: "dict_get ?t2i (?keys ! i) = Some i" if "i < ?n" for i
    using dict_get_zip_nth [OF dist len, of i] that by (simp add: reserved_tokens_def)
  have pad: "dict_get ?t2i (token_pad ?p) = Some 0"
    using get [of 0] by (simp add: reserved_tokens_def)
  have unk: "dict_get ?t2i (token_unk ?p) = Some 1"
    using get [of 1] by (simp add: reserved_tokens_def)
  have bos: "dict_get ?t2i (token_bos ?p) = Some 2"
    using get [of 2] by (simp add: reserved_tokens_def)
  have eos: "dict_get ?t2i (token_eos ?p) = Some 3"
    using get [of 3] by (simp add: reserved_tokens_def)
  have loaded: "map (dict_get ?t2i) (index2word w2v) = map Some [4..<?n]"
  proof (rule nth_equalityI)
    show "length (map (dict_get ?t2i) (index2word w2v)) = length (map Some [4..<?n])"
      by simp
  next
    fix i
    assume "i < length (map (dict_get ?t2i) (index2word w2v))"
    then have i: "i < length (index2word w2v)" by simp
    have "?keys ! (4 + i) = index2word w2v ! i"
      by (simp add: reserved_tokens_def nth_append)
    then show "map (dict_get ?t2i) (index2word w2v) ! i = map Some [4..<?n] ! i"
      using get [of "4 + i"] i by simp
  qed
  show ?thesis
    unfolding build_token2idx_from_w2v_result [of load_word2vec_format self w2v, OF assms]
    using pad unk bos eos loaded by simp
qed

theorem token2idx_reserved_then_loaded_witness:
  "keyed_vectors_ok example_w2v \<and>
   distinct (reserved_tokens (processor example_embedding)) \<and>
   set (index2word example_w2v) \<inter> set (reserved_tokens (processor example_embedding)) = {} \<and>
   (\<exists>self' t2i.
     build_token2idx_from_w2v example_load example_rng example_embedding = Inr self' \<and>
     w2v_token2idx self' = Some t2i \<and>
     dict_get t2i ''<PAD>'' = Some 0 \<and>
     dict_get t2i ''<UNK>'' = Some 1 \<and>
     dict_get t2i ''<BOS>'' = Some 2 \<and>
     dict_get t2i ''<EOS>'' = Some 3 \<and>
     map (dict_get t2i) [''the'', ''cat''] = [Some 4, Some 5])"
  using token2idx_reserved_then_loaded
    [of example_load example_embedding example_w2v example_rng]
  by (simp add: example_load_def example_embedding_def example_w2v_def example_processor_def
      keyed_vectors_ok_def reserved_tokens_def upt_conv_Cons)

text \<open>
  C2. Under the same conditions, the row of the stored matrix at the index of a loaded
  word is the vector the table holds for that word: the word at position \<open>i\<close> of the
  table has row \<open>i\<close> of \<open>vectors\<close>. Equivalently, the rows from 4 on are the loaded
  vectors in the loader's order.
\<close>

theorem vector_matrix_rows_are_loaded_vectors:
  assumes "load_word2vec_format (w2v_path self) (w2v_kwargs self) = Inr w2v"
    and "keyed_vectors_ok w2v"
    and "distinct (reserved_tokens (processor self))"
    and "set (index2word w2v) \<inter> set (reserved_tokens (processor self)) = {}"
  shows "\<exists>self' t2i matrix.
     build_token2idx_from_w2v load_word2vec_format rng self = Inr self' \<and>
     w2v_token2idx self' = Some t2i \<and>
     w2v_vector_matrix self' = Some matrix \<and>
     drop 4 matrix = vectors w2v \<and>
     (\<forall>i < length (index2word w2v). \<exists>j < length matrix.
        dict_get t2i (index2word w2v ! i) = Some j \<and> matrix ! j = vectors w2v ! i)"
proof -
  let ?keys = "reserved_tokens (processor self) @ index2word w2v"
  let ?n = "4 + length (index2word w2v)"
  let ?t2i = "zip ?keys [0..<?n]"
  let ?c = "vector_size w2v"
  let ?matrix = "[replicate ?c 0, random_rand rng ?c, replicate ?c 0, replicate ?c 0] @ vectors w2v"
  have dist: "distinct ?keys"
    using assms(2-4) by (rule keys_distinct)
  have len: "length ?keys = length [0..<?n]"
    by (simp add: reserved_tokens_def)
  have rows: "length (vectors w2v) = length (index2word w2v)"
    using assms(2) by (simp add: keyed_vectors_ok_def)
  have row: "\<exists>j < length ?matrix.
      dict_get ?t2i (index2word w2v ! i) = Some j \<and> ?matrix ! j = vectors w2v ! i"
    if i: "i < length (index2word w2v)" for i
  proof (intro exI [of _ "4 + i"] conjI)
    show "4 + i < length ?matrix"
      using i rows by simp
    have "?keys ! (4 + i) = index2word w2v ! i"
      by (simp add: reserved_tokens_def nth_append)
    then show "dict_get ?t2i (index2word w2v ! i) = Some (4 + i)"
      using dict_get_zip_nth [OF dist len, of "4 + i"] i by (simp add: reserved_tokens_def)
    show "?matrix ! (4 + i) = vectors w2v ! i"
      by (simp add: nth_append)
  qed
  show ?thesis
    unfolding build_token2idx_from_w2v_result [of load_word2vec_format self w2v, OF assms]
    using row by simp
qed

theorem vector_matrix_rows_are_loaded_vectors_witness:
  "keyed_vectors_ok example_w2v \<and>
   distinct (reserved_tokens (processor example_embedding)) \<and>
   set (index2word example_w2v) \<inter> set (reserved_tokens (processor example_embedding)) = {} \<and>
   (\<exists>self' t2i matrix.
     build_token2idx_from_w2v example_load example_rng example_embedding = Inr self' \<and>
     w2v_token2idx self' = Some t2i \<and>
     w2v_vector_matrix self' = Some matrix \<and>
     drop 4 matrix = [[1/2, -1], [3, 1/4]] \<and>
     (\<forall>i < 2. \<exists>j < length matrix.
        dict_get t2i ([''the'', ''cat''] ! i) = Some j \<and> matrix ! j = [[1/2, -1], [3, 1/4]] ! i))"
  using vector_matrix_rows_are_loaded_vectors
    [of example_load example_embedding example_w2v example_rng]
  by (simp add: example_load_def example_embedding_def example_w2v_def example_processor_def
      keyed_vectors_ok_def reserved_tokens_def numeral_2_eq_2)

text \<open>
  C3, as the code has it. Whenever \<^verbatim>\<open>_build_token2idx_from_w2v\<close> returns, the matrix
  has one row per dictionary entry, row 1 (the unknown token) holds the samples that
  \<^verbatim>\<open>np.random.rand(vector_size)\<close> returned, and every other row below 4 is zero in
  every entry. When the table is as gensim returns it and holds none of the four
  reserved tokens, which are four different strings, the method returns, rows 0, 2 and
  3 (pad, begin, end) are zero, and the rows from 4 on, and only they, are the loaded
  vectors.
\<close>

theorem reserved_rows_zero_except_unknown:
  assumes "load_word2vec_format (w2v_path self) (w2v_kwargs self) = Inr w2v"
  shows "(\<forall>self'. build_token2idx_from_w2v load_word2vec_format rng self = Inr self' \<longrightarrow>
      (\<exists>matrix.
         w2v_vector_matrix self' = Some matrix \<and>
         length matrix = length (token2idx_of_w2v (processor self) w2v) \<and>
         1 < length matrix \<and>
         matrix ! 1 = random_rand rng (vector_size w2v) \<and>
         (\<forall>i < length matrix. i < 4 \<and> i \<noteq> 1 \<longrightarrow>
            matrix ! i = replicate (vector_size w2v) 0))) \<and>
    (keyed_vectors_ok w2v \<and>
     distinct (reserved_tokens (processor self)) \<and>
     set (index2word w2v) \<inter> set (reserved_tokens (processor self)) = {} \<longrightarrow>
      (\<exists>self' matrix.
         build_token2idx_from_w2v load_word2vec_format rng self = Inr self' \<and>
         w2v_vector_matrix self' = Some matrix \<and>
         length matrix = 4 + length (index2word w2v) \<and>
         matrix ! 0 = replicate (vector_size w2v) 0 \<and>
         matrix ! 1 = random_rand rng (vector_size w2v) \<and>
         matrix ! 2 = replicate (vector_size w2v) 0 \<and>
         matrix ! 3 = replicate (vector_size w2v) 0 \<and>
         drop 4 matrix = vectors w2v))"
proof (intro conjI allI impI)
  fix self'
  assume "build_token2idx_from_w2v load_word2vec_format rng self = Inr self'"
  from build_token2idx_from_w2v_matrix [of load_word2vec_format self w2v rng self', OF assms this]
  obtain matrix where
    made: "vector_matrix_of_w2v rng (length (token2idx_of_w2v (processor self) w2v)) w2v =
      Inr matrix"
    and stored: "w2v_vector_matrix self' = Some matrix"
    by blast
  from vector_matrix_of_w2v_reserved_rows [OF made] stored
  show "\<exists>matrix.
      w2v_vector_matrix self' = Some matrix \<and>
      length matrix = length (token2idx_of_w2v (processor self) w2v) \<and>
      1 < length matrix \<and>
      matrix ! 1 = random_rand rng (vector_size w2v) \<and>
      (\<forall>i < length matrix. i < 4 \<and> i \<noteq> 1 \<longrightarrow>
         matrix ! i = replicate (vector_size w2v) 0)"
    by auto
next
  assume ok: "keyed_vectors_ok w2v \<and>
     distinct (reserved_tokens (processor self)) \<and>
     set (index2word w2v) \<inter> set (reserved_tokens (processor self)) = {}"
  then have "length (vectors w2v) = length (index2word w2v)"
    by (simp add: keyed_vectors_ok_def)
  then show "\<exists>self' matrix.
      build_token2idx_from_w2v load_word2vec_format rng self = Inr self' \<and>
      w2v_vector_matrix self' = Some matrix \<and>
      length matrix = 4 + length (index2word w2v) \<and>
      matrix ! 0 = replicate (vector_size w2v) 0 \<and>
      matrix ! 1 = random_rand rng (vector_size w2v) \<and>
      matrix ! 2 = replicate (vector_size w2v) 0 \<and>
      matrix ! 3 = replicate (vector_size w2v) 0 \<and>
      drop 4 matrix = vectors w2v"
    using ok
    unfolding build_token2idx_from_w2v_result [of load_word2vec_format self w2v rng, OF assms
        conjunct1 [OF ok] conjunct1 [OF conjunct2 [OF ok]] conjunct2 [OF conjunct2 [OF ok]]]
    by simp
qed

theorem reserved_rows_zero_except_unknown_witness:
  "keyed_vectors_ok example_w2v \<and>
   distinct (reserved_tokens (processor example_embedding)) \<and>
   set (index2word example_w2v) \<inter> set (reserved_tokens (processor example_embedding)) = {} \<and>
   (\<exists>self' matrix.
     build_token2idx_from_w2v example_load example_rng example_embedding = Inr self' \<and>
     w2v_vector_matrix self' = Some matrix \<and>
     length matrix = 6 \<and>
     matrix ! 0 = [0, 0] \<and>
     matrix ! 1 = [1/2, 1/3] \<and>
     matrix ! 2 = [0, 0] \<and>
     matrix ! 3 = [0, 0] \<and>
     drop 4 matrix = [[1/2, -1], [3, 1/4]])"
proof -
  have load: "example_load (w2v_path example_embedding) (w2v_kwargs example_embedding) =
      Inr example_w2v"
    by (simp add: example_load_def)
  have hyps: "keyed_vectors_ok example_w2v \<and>
      distinct (reserved_tokens (processor example_embedding)) \<and>
      set (index2word example_w2v) \<inter> set (reserved_tokens (processor example_embedding)) = {}"
    by (simp add: example_embedding_def example_w2v_def example_processor_def
        keyed_vectors_ok_def reserved_tokens_def)
  note rows = reserved_rows_zero_except_unknown
    [of example_load example_embedding example_w2v example_rng, OF load, THEN conjunct2, rule_format, OF hyps]
  show ?thesis
    using hyps rows
    by (simp add: example_w2v_def random_rand_def example_rng_def numeral_2_eq_2)
qed

text \<open>
  C3 as stated (all four reserved rows are zero) fails: for the example table and a
  generator whose first two samples are 1/2 and 1/3, row 1 of the matrix is
  \<open>[1/2, 1/3]\<close>.
\<close>

theorem reserved_rows_all_zero_counterexample:
  "keyed_vectors_ok example_w2v \<and>
   distinct (reserved_tokens (processor example_embedding)) \<and>
   set (index2word example_w2v) \<inter> set (reserved_tokens (processor example_embedding)) = {} \<and>
   w2v_vector_matrix
     (state_after (build_token2idx_from_w2v example_load example_rng example_embedding)) =
     Some [[0, 0], [1/2, 1/3], [0, 0], [0, 0], [1/2, -1], [3, 1/4]] \<and>
   \<not> list_all (list_all (\<lambda>x. x = 0))
       (take 4 (the (w2v_vector_matrix
         (state_after (build_token2idx_from_w2v example_load example_rng example_embedding)))))"
proof -
  have hyps: "keyed_vectors_ok example_w2v \<and>
      distinct (reserved_tokens (processor example_embedding)) \<and>
      set (index2word example_w2v) \<inter> set (reserved_tokens (processor example_embedding)) = {}"
    by (simp add: example_embedding_def example_w2v_def example_processor_def
        keyed_vectors_ok_def reserved_tokens_def)
  have load: "example_load (w2v_path example_embedding) (w2v_kwargs example_embedding) =
      Inr example_w2v"
    by (simp add: example_load_def)
  have matrix: "w2v_vector_matrix
      (state_after (build_token2idx_from_w2v example_load example_rng example_embedding)) =
      Some [[0, 0], [1/2, 1/3], [0, 0], [0, 0], [1/2, -1], [3, 1/4]]"
    using hyps
    by (simp add: build_token2idx_from_w2v_result [of example_load example_embedding example_w2v, OF load]
        example_w2v_def random_rand_def example_rng_def numeral_2_eq_2)
  show ?thesis
    using hyps by (simp add: matrix)
qed

text \<open>
  C7. Under the same conditions, the dictionary that is stored is the one built from
  the reserved tokens and the table (the reserved tokens at 0 to 3, the loaded words
  from 4 on), the processor's \<open>token2idx\<close> is that dictionary, and the processor's
  \<open>idx2token\<close> is made from its swapped pairs and is its inverse: a token has index
  \<open>i\<close> in the one exactly when \<open>i\<close> has that token in the other.
\<close>

theorem processor_vocabulary_aligned:
  assumes "load_word2vec_format (w2v_path self) (w2v_kwargs self) = Inr w2v"
    and "keyed_vectors_ok w2v"
    and "distinct (reserved_tokens (processor self))"
    and "set (index2word w2v) \<inter> set (reserved_tokens (processor self)) = {}"
  shows "\<exists>self' t2i.
     build_token2idx_from_w2v load_word2vec_format rng self = Inr self' \<and>
     w2v_token2idx self' = Some t2i \<and>
     t2i = token2idx_of_w2v (processor self) w2v \<and>
     t2i = zip (reserved_tokens (processor self) @ index2word w2v)
             [0..<4 + length (index2word w2v)] \<and>
     token2idx (processor self') = t2i \<and>
     idx2token (processor self') = dict_of_pairs (map (\<lambda>(key, value). (value, key)) t2i) \<and>
     idx2token (processor self') =
       zip [0..<4 + length (index2word w2v)] (reserved_tokens (processor self) @ index2word w2v) \<and>
     (\<forall>t i. dict_get t2i t = Some i \<longleftrightarrow> dict_get (idx2token (processor self')) i = Some t)"
proof -
  let ?keys = "reserved_tokens (processor self) @ index2word w2v"
  let ?n = "4 + length (index2word w2v)"
  have dist: "distinct ?keys"
    using assms(2-4) by (rule keys_distinct)
  have len: "length ?keys = length [0..<?n]"
    by (simp add: reserved_tokens_def)
  have inv: "dict_get (zip ?keys [0..<?n]) t = Some i \<longleftrightarrow> dict_get (zip [0..<?n] ?keys) i = Some t"
    for t i
    using dist _ len by (rule dict_get_zip_swap) simp
  have t2i: "token2idx_of_w2v (processor self) w2v = zip ?keys [0..<?n]"
    using assms by (intro token2idx_of_w2v_eq) (simp_all add: keyed_vectors_ok_def)
  have "distinct (map fst (zip [0..<?n] ?keys))"
    by (simp add: reserved_tokens_def)
  then have idx: "dict_of_pairs (zip [0..<?n] ?keys) = zip [0..<?n] ?keys"
    by (rule dict_of_pairs_distinct)
  show ?thesis
    unfolding build_token2idx_from_w2v_result [of load_word2vec_format self w2v, OF assms]
    using inv by (simp add: t2i swap_zip idx)
qed

theorem processor_vocabulary_aligned_witness:
  "keyed_vectors_ok example_w2v \<and>
   distinct (reserved_tokens (processor example_embedding)) \<and>
   set (index2word example_w2v) \<inter> set (reserved_tokens (processor example_embedding)) = {} \<and>
   (\<exists>self' t2i.
     build_token2idx_from_w2v example_load example_rng example_embedding = Inr self' \<and>
     w2v_token2idx self' = Some t2i \<and>
     t2i = zip [''<PAD>'', ''<UNK>'', ''<BOS>'', ''<EOS>'', ''the'', ''cat''] [0..<6] \<and>
     token2idx (processor self') = t2i \<and>
     idx2token (processor self') =
       zip [0..<6] [''<PAD>'', ''<UNK>'', ''<BOS>'', ''<EOS>'', ''the'', ''cat''] \<and>
     (\<forall>t i. dict_get t2i t = Some i \<longleftrightarrow> dict_get (idx2token (processor self')) i = Some t))"
proof -
  have load: "example_load (w2v_path example_embedding) (w2v_kwargs example_embedding) =
      Inr example_w2v"
    by (simp add: example_load_def)
  have ok: "keyed_vectors_ok example_w2v"
    by (simp add: keyed_vectors_ok_def example_w2v_def)
  have res: "distinct (reserved_tokens (processor example_embedding))"
    by (simp add: reserved_tokens_def example_embedding_def example_processor_def)
  have disj: "set (index2word example_w2v) \<inter> set (reserved_tokens (processor example_embedding)) = {}"
    by (simp add: reserved_tokens_def example_embedding_def example_processor_def example_w2v_def)
  have keys: "reserved_tokens (processor example_embedding) @ index2word example_w2v =
      [''<PAD>'', ''<UNK>'', ''<BOS>'', ''<EOS>'', ''the'', ''cat'']"
    by (simp add: reserved_tokens_def example_embedding_def example_processor_def example_w2v_def)
  have n: "4 + length (index2word example_w2v) = 6"
    by (simp add: example_w2v_def)
  obtain self' t2i where
    "build_token2idx_from_w2v example_load example_rng example_embedding = Inr self'"
    "w2v_token2idx self' = Some t2i"
    "t2i = zip (reserved_tokens (processor example_embedding) @ index2word example_w2v)
       [0..<4 + length (index2word example_w2v)]"
    "token2idx (processor self') = t2i"
    "idx2token (processor self') =
       zip [0..<4 + length (index2word example_w2v)]
         (reserved_tokens (processor example_embedding) @ index2word example_w2v)"
    "\<forall>t i. dict_get t2i t = Some i \<longleftrightarrow> dict_get (idx2token (processor self')) i = Some t"
    using processor_vocabulary_aligned
      [of example_load example_embedding example_w2v example_rng, OF load ok res disj]
    by blast
  then show ?thesis
    unfolding keys n using ok res disj by (intro conjI exI [of _ self'] exI [of _ t2i])
qed

text \<open>
  C8. When the loader raises, \<^verbatim>\<open>_build_token2idx_from_w2v\<close> raises the same exception
  and the object is as it was before the call: no attribute has been assigned, so
  \<open>w2v_model_loaded\<close> keeps its value.
\<close>

theorem load_exception_leaves_object_unchanged:
  assumes "load_word2vec_format (w2v_path self) (w2v_kwargs self) = Inl e"
  shows "build_token2idx_from_w2v load_word2vec_format rng self = Inl (e, self)"
  using assms by (simp add: build_token2idx_from_w2v_def)

theorem load_exception_leaves_object_unchanged_witness:
  "failing_load (w2v_path example_embedding) (w2v_kwargs example_embedding) =
     Inl (LibraryError ''No such file or directory'') \<and>
   build_token2idx_from_w2v failing_load example_rng example_embedding =
     Inl (LibraryError ''No such file or directory'', example_embedding) \<and>
   \<not> w2v_model_loaded
     (state_after (build_token2idx_from_w2v failing_load example_rng example_embedding))"
  using load_exception_leaves_object_unchanged
    [of failing_load example_embedding "LibraryError ''No such file or directory''" example_rng]
  by (simp add: failing_load_def example_embedding_def)

text \<open>
  C10. When the table holds none of the four reserved tokens, the dictionary has
  4 + (number of loaded words) entries, its keys are distinct and its values are
  0, 1, ..., n - 1 in order, and the two assignments into the matrix succeed, the matrix
  having one row per entry. Without that condition both can fail: for a table whose
  first word is the pad token, the pad token and the word \<open>cat\<close> both get index 4, and
  the slice assignment raises \<^verbatim>\<open>ValueError\<close>.
\<close>

theorem token2idx_contiguous_and_slice_fits:
  assumes "keyed_vectors_ok w2v"
    and "distinct (reserved_tokens p)"
    and "set (index2word w2v) \<inter> set (reserved_tokens p) = {}"
  shows "length (token2idx_of_w2v p w2v) = 4 + length (index2word w2v) \<and>
     distinct (map fst (token2idx_of_w2v p w2v)) \<and>
     map snd (token2idx_of_w2v p w2v) = [0..<length (token2idx_of_w2v p w2v)] \<and>
     (\<exists>matrix. vector_matrix_of_w2v rng (length (token2idx_of_w2v p w2v)) w2v = Inr matrix \<and>
        length matrix = length (token2idx_of_w2v p w2v)) \<and>
     (keyed_vectors_ok clashing_w2v \<and>
      distinct (reserved_tokens example_processor) \<and>
      set (index2word clashing_w2v) \<inter> set (reserved_tokens example_processor) \<noteq> {} \<and>
      dict_get (token2idx_of_w2v example_processor clashing_w2v) ''<PAD>'' = Some 4 \<and>
      dict_get (token2idx_of_w2v example_processor clashing_w2v) ''cat'' = Some 4 \<and>
      vector_matrix_of_w2v example_rng (length (token2idx_of_w2v example_processor clashing_w2v))
        clashing_w2v = Inl ValueError)"
proof -
  let ?keys = "reserved_tokens p @ index2word w2v"
  let ?n = "4 + length (index2word w2v)"
  have t2i: "token2idx_of_w2v p w2v = zip ?keys [0..<?n]"
    using assms by (intro token2idx_of_w2v_eq) (simp_all add: keyed_vectors_ok_def)
  have len: "length (token2idx_of_w2v p w2v) = ?n"
    by (simp add: t2i reserved_tokens_def)
  have fst: "map fst (token2idx_of_w2v p w2v) = ?keys"
    by (simp add: t2i reserved_tokens_def)
  have snd: "map snd (token2idx_of_w2v p w2v) = [0..<?n]"
    by (simp add: t2i reserved_tokens_def)
  have rows: "length (vectors w2v) = length (index2word w2v)"
    using assms(1) by (simp add: keyed_vectors_ok_def)
  have matrix: "\<exists>matrix. vector_matrix_of_w2v rng ?n w2v = Inr matrix \<and> length matrix = ?n"
    using vector_matrix_of_w2v_eq [OF assms(1), of ?n rng] rows by simp
  have clash_t2i: "token2idx_of_w2v example_processor clashing_w2v =
      [(''<PAD>'', 4), (''<UNK>'', 1), (''<BOS>'', 2), (''<EOS>'', 3), (''cat'', 4)]"
    by (simp add: token2idx_of_w2v_def initial_token2idx_def dict_of_pairs_def dict_setitem_def
        example_processor_def clashing_w2v_def)
  have clash_len: "length (token2idx_of_w2v example_processor clashing_w2v) = 5"
    by (simp add: clash_t2i)
  have "vector_matrix_of_w2v example_rng 5 clashing_w2v = Inl ValueError"
    by (simp add: vector_matrix_of_w2v_def np_zeros_def set_row_def set_rows_from_def
        broadcast_to_def clashing_w2v_def numeral_eq_Suc)
  then have clash_matrix:
    "vector_matrix_of_w2v example_rng (length (token2idx_of_w2v example_processor clashing_w2v))
       clashing_w2v = Inl ValueError"
    unfolding clash_len .
  have clash_pad: "dict_get (token2idx_of_w2v example_processor clashing_w2v) ''<PAD>'' = Some 4"
    and clash_cat: "dict_get (token2idx_of_w2v example_processor clashing_w2v) ''cat'' = Some 4"
    by (simp_all add: clash_t2i dict_get_def)
  have clash: "keyed_vectors_ok clashing_w2v"
    "distinct (reserved_tokens example_processor)"
    "set (index2word clashing_w2v) \<inter> set (reserved_tokens example_processor) \<noteq> {}"
    by (simp_all add: keyed_vectors_ok_def clashing_w2v_def reserved_tokens_def
        example_processor_def)
  have keys: "distinct (map fst (token2idx_of_w2v p w2v))"
    unfolding fst using assms by (rule keys_distinct)
  have idxs: "map snd (token2idx_of_w2v p w2v) = [0..<length (token2idx_of_w2v p w2v)]"
    unfolding len by (rule snd)
  have fits: "\<exists>matrix.
      vector_matrix_of_w2v rng (length (token2idx_of_w2v p w2v)) w2v = Inr matrix \<and>
      length matrix = length (token2idx_of_w2v p w2v)"
    unfolding len by (rule matrix)
  show ?thesis
    using len keys idxs fits clash clash_pad clash_cat clash_matrix by (intro conjI)
qed

theorem token2idx_contiguous_and_slice_fits_witness:
  "keyed_vectors_ok example_w2v \<and>
   distinct (reserved_tokens example_processor) \<and>
   set (index2word example_w2v) \<inter> set (reserved_tokens example_processor) = {} \<and>
   length (token2idx_of_w2v example_processor example_w2v) = 6 \<and>
   map snd (token2idx_of_w2v example_processor example_w2v) = [0..<6] \<and>
   (\<exists>matrix. vector_matrix_of_w2v example_rng 6 example_w2v = Inr matrix \<and> length matrix = 6)"
proof -
  have ok: "keyed_vectors_ok example_w2v"
    by (simp add: keyed_vectors_ok_def example_w2v_def)
  have res: "distinct (reserved_tokens example_processor)"
    by (simp add: reserved_tokens_def example_processor_def)
  have disj: "set (index2word example_w2v) \<inter> set (reserved_tokens example_processor) = {}"
    by (simp add: reserved_tokens_def example_processor_def example_w2v_def)
  note fits = token2idx_contiguous_and_slice_fits [OF ok res disj, of example_rng]
  have len: "length (token2idx_of_w2v example_processor example_w2v) = 6"
    using fits by (simp add: example_w2v_def)
  show ?thesis
    using ok res disj fits unfolding len by simp
qed

subsection \<open>What \<^verbatim>\<open>_build_model\<close> leaves in the object\<close>

lemma build_branches_accepted:
  assumes "w2v_vector_matrix self = Some matrix"
    and "list_all (\<lambda>(index, seq_len).
         input_raises K [seq_len] (''input_'' @ string_of_nat index) = None \<and>
         embedding_raises K (layer_embedding tc (embedding_size self) matrix index) = None \<and>
         call_raises K (layer_embedding tc (embedding_size self) matrix index)
           (input_tensor index seq_len) = None) es"
  shows "build_branches K tc self es (ins, outs) =
    Inr (ins @ map (\<lambda>(index, seq_len). input_tensor index seq_len) es,
         outs @ map (\<lambda>(index, seq_len).
            Embedded (layer_embedding tc (embedding_size self) matrix index)
              (input_tensor index seq_len)) es)"
  using assms by (induction es arbitrary: ins outs) (auto simp: Let_def)

lemma build_branches_refused:
  assumes "w2v_vector_matrix self = Some matrix"
    and "\<not> list_all (\<lambda>(index, seq_len).
         input_raises K [seq_len] (''input_'' @ string_of_nat index) = None \<and>
         embedding_raises K (layer_embedding tc (embedding_size self) matrix index) = None \<and>
         call_raises K (layer_embedding tc (embedding_size self) matrix index)
           (input_tensor index seq_len) = None) es"
  shows "\<exists>e. build_branches K tc self es (ins, outs) = Inl e"
  using assms
proof (induction es arbitrary: ins outs)
  case Nil
  then show ?case by simp
next
  case (Cons p es)
  obtain index seq_len where p: "p = (index, seq_len)"
    by (cases p)
  show ?case
  proof (cases "input_raises K [seq_len] (''input_'' @ string_of_nat index) = None \<and>
         embedding_raises K (layer_embedding tc (embedding_size self) matrix index) = None \<and>
         call_raises K (layer_embedding tc (embedding_size self) matrix index)
           (input_tensor index seq_len) = None")
    case True
    with Cons.prems p have "\<not> list_all (\<lambda>(index, seq_len).
         input_raises K [seq_len] (''input_'' @ string_of_nat index) = None \<and>
         embedding_raises K (layer_embedding tc (embedding_size self) matrix index) = None \<and>
         call_raises K (layer_embedding tc (embedding_size self) matrix index)
           (input_tensor index seq_len) = None) es"
      by simp
    from Cons.IH [OF Cons.prems(1) this] True Cons.prems(1) show ?thesis
      by (simp add: p Let_def)
  next
    case False
    with Cons.prems(1) show ?thesis
      by (auto simp: p split: option.splits)
  qed
qed

lemma length_branches:
  "length (branch_inputs self) = length (sequence_length self)"
  "length (branch_outputs tc self matrix) = length (sequence_length self)"
  by (simp_all add: branch_inputs_def branch_outputs_def)

lemma build_model_accepted:
  assumes "token_count self \<noteq> 0" and "w2v_vector_matrix self = Some matrix"
    and "keras_accepts K (token_count self) self matrix"
  shows "build_model K token_count self =
    Inr (self \<lparr> embed_model := Some
      \<lparr> model_inputs = branch_inputs self,
        model_outputs = merged_output (token_count self) self matrix \<rparr> \<rparr>)"
proof -
  have branches: "build_branches K (token_count self) self (enumerate 0 (sequence_length self))
      ([], []) = Inr (branch_inputs self, branch_outputs (token_count self) self matrix)"
    using build_branches_accepted [OF assms(2), of K "token_count self"
        "enumerate 0 (sequence_length self)" "[]" "[]"] assms(3)
    by (simp add: keras_accepts_def branch_inputs_def branch_outputs_def)
  show ?thesis
  proof (cases "1 < length (sequence_length self)")
    case True
    with assms(1,3) show ?thesis
      by (simp add: build_model_def branches length_branches keras_accepts_def merged_output_def)
  next
    case False
    with assms(1,3) show ?thesis
      by (simp add: build_model_def branches length_branches keras_accepts_def merged_output_def)
  qed
qed

lemma build_model_refused:
  assumes "token_count self \<noteq> 0" and "w2v_vector_matrix self = Some matrix"
    and "\<not> keras_accepts K (token_count self) self matrix"
  shows "\<exists>e. build_model K token_count self = Inl (e, self)"
proof (cases "list_all (\<lambda>(index, seq_len).
         input_raises K [seq_len] (''input_'' @ string_of_nat index) = None \<and>
         embedding_raises K
           (layer_embedding (token_count self) (embedding_size self) matrix index) = None \<and>
         call_raises K (layer_embedding (token_count self) (embedding_size self) matrix index)
           (input_tensor index seq_len) = None) (enumerate 0 (sequence_length self))")
  case False
  from build_branches_refused [OF assms(2) this, of "[]" "[]"] assms(1) show ?thesis
    by (auto simp: build_model_def)
next
  case True
  have branches: "build_branches K (token_count self) self (enumerate 0 (sequence_length self))
      ([], []) = Inr (branch_inputs self, branch_outputs (token_count self) self matrix)"
    using build_branches_accepted [OF assms(2) True, of "[]" "[]"]
    by (simp add: branch_inputs_def branch_outputs_def)
  show ?thesis
  proof (cases "1 < length (sequence_length self)")
    case several: True
    with assms(1,3) True show ?thesis
      by (auto simp: build_model_def branches length_branches keras_accepts_def
          merged_output_def split: option.splits)
  next
    case one: False
    with assms(1,3) True show ?thesis
      by (auto simp: build_model_def branches length_branches keras_accepts_def
          merged_output_def split: option.splits)
  qed
qed

lemma build_model_raises_unchanged:
  "build_model K token_count self = Inl (e, self') \<Longrightarrow> self' = self"
  by (auto simp: build_model_def split: if_splits sum.splits prod.splits option.splits)

lemma layers_of_branch_outputs:
  "concat (map layers_of_tensor (branch_outputs tc self matrix)) =
   map (\<lambda>(index, seq_len). layer_embedding tc (embedding_size self) matrix index)
     (enumerate 0 (sequence_length self))"
proof -
  have "concat (map layers_of_tensor
      (map (\<lambda>(index, seq_len). Embedded (layer index) (input_tensor index seq_len)) es)) =
      map (\<lambda>(index, seq_len). layer index) es" for layer :: "nat \<Rightarrow> 'a embedding_layer" and es
    by (induction es) (auto simp: input_tensor_def)
  then show ?thesis
    unfolding branch_outputs_def .
qed


lemma embedding_layers_merged_output:
  "embedding_layers (merged_output tc self matrix) =
   map (\<lambda>(index, seq_len). layer_embedding tc (embedding_size self) matrix index)
     (enumerate 0 (sequence_length self))"
  by (simp add: merged_output_def layers_of_branch_outputs)





lemma build_model_keeps_w2v:
  "w2v_model_loaded (state_after (build_model K tc self)) = w2v_model_loaded self \<and>
   w2v_token2idx (state_after (build_model K tc self)) = w2v_token2idx self \<and>
   w2v_vector_matrix (state_after (build_model K tc self)) = w2v_vector_matrix self \<and>
   embedding_size (state_after (build_model K tc self)) = embedding_size self"
  by (simp add: build_model_def Let_def split: sum.splits prod.splits option.splits)

subsection \<open>The examples\<close>

lemma built_embedding_eq:
  "built_embedding = example_embedding
     \<lparr> embedding_size := 2,
       w2v_vector_matrix := Some built_matrix,
       w2v_token2idx := Some (zip [''<PAD>'', ''<UNK>'', ''<BOS>'', ''<EOS>'', ''the'', ''cat''] [0..<6]),
       w2v_top_words := Some [''the'', ''cat''],
       w2v_model_loaded := True,
       processor := example_processor
         \<lparr> token2idx := zip [''<PAD>'', ''<UNK>'', ''<BOS>'', ''<EOS>'', ''the'', ''cat''] [0..<6],
           idx2token := zip [0..<6] [''<PAD>'', ''<UNK>'', ''<BOS>'', ''<EOS>'', ''the'', ''cat''] \<rparr> \<rparr>"
proof -
  have load: "example_load (w2v_path example_embedding) (w2v_kwargs example_embedding) =
      Inr example_w2v"
    by (simp add: example_load_def)
  have ok: "keyed_vectors_ok example_w2v"
    by (simp add: keyed_vectors_ok_def example_w2v_def)
  have res: "distinct (reserved_tokens (processor example_embedding))"
    by (simp add: reserved_tokens_def example_embedding_def example_processor_def)
  have disj: "set (index2word example_w2v) \<inter> set (reserved_tokens (processor example_embedding)) = {}"
    by (simp add: reserved_tokens_def example_embedding_def example_processor_def example_w2v_def)
  show ?thesis
    unfolding built_embedding_def
      build_token2idx_from_w2v_result [of example_load example_embedding example_w2v, OF load ok res disj]
    by (simp add: example_w2v_def example_embedding_def example_processor_def reserved_tokens_def
        random_rand_def example_rng_def built_matrix_def numeral_2_eq_2)
qed



lemma built_embedding_fields:
  "w2v_model_loaded built_embedding"
  "w2v_vector_matrix built_embedding = Some built_matrix"
  "sequence_length built_embedding = [Some 12, Some 12]"
  "embedding_size built_embedding = 2"
  "example_token_count built_embedding = 6"
  by (simp_all add: built_embedding_eq example_embedding_def example_token_count_def)

lemma built_embedding_accepted:
  "keras_accepts example_keras 6 built_embedding built_matrix"
  by (simp add: keras_accepts_def example_keras_def built_embedding_fields branch_outputs_def
      branch_inputs_def merged_output_def layer_embedding_def input_tensor_def built_matrix_def)

lemma uneven_embedding_fields:
  "w2v_vector_matrix uneven_embedding = Some built_matrix"
  "sequence_length uneven_embedding = [Some 12, Some 20]"
  "embedding_size uneven_embedding = 2"
  "example_token_count uneven_embedding = 6"
  by (simp_all add: uneven_embedding_def built_embedding_eq example_embedding_def
      example_token_count_def)

text \<open>
  The example library refuses what Keras refuses: branches of the lengths 12 and 20
  cannot be concatenated, a token count of 7 does not fit a matrix of six rows, and an
  embedding size of 0 is not a dimension. In each case \<^verbatim>\<open>_build_model\<close> raises and
  the object is unchanged.
\<close>

lemma uneven_lengths_refused:
  "build_model example_keras example_token_count uneven_embedding =
     Inl (ValueError, uneven_embedding)"
  by (simp add: build_model_def uneven_embedding_fields example_keras_def layer_embedding_def
      input_tensor_def built_matrix_def Let_def)

lemma unfitting_token_count_refused:
  "build_model example_keras (\<lambda>self. 7) built_embedding = Inl (ValueError, built_embedding)"
  by (simp add: build_model_def built_embedding_fields example_keras_def layer_embedding_def
      input_tensor_def built_matrix_def Let_def)

lemma zero_embedding_size_refused:
  "build_model example_keras example_token_count (built_embedding \<lparr> embedding_size := 0 \<rparr>) =
     Inl (ValueError, built_embedding \<lparr> embedding_size := 0 \<rparr>)"
  by (simp add: build_model_def built_embedding_fields example_keras_def layer_embedding_def
      example_token_count_def built_embedding_eq example_embedding_def Let_def)

subsection \<open>Claims about \<^verbatim>\<open>_build_model\<close>\<close>



text \<open>
  C5. For such an object, when Keras accepts the calls, every embedding layer of the
  model that \<^verbatim>\<open>_build_model\<close> stores is not trainable and has the one matrix
  \<^verbatim>\<open>self.w2v_vector_matrix\<close> as its weights, and there is one such layer per
  configured sequence length; when Keras refuses a call, the method raises and stores
  no model.
\<close>

theorem build_model_layers_frozen_shared_matrix:
  assumes "token_count self \<noteq> 0" and "w2v_vector_matrix self = Some matrix"
  shows "if keras_accepts K (token_count self) self matrix
    then
      (\<exists>model.
         build_model K token_count self = Inr (self \<lparr> embed_model := Some model \<rparr>) \<and>
         length (embedding_layers (model_outputs model)) = length (sequence_length self) \<and>
         (\<forall>layer \<in> set (embedding_layers (model_outputs model)).
            \<not> trainable layer \<and> weights layer = [matrix]))
    else (\<exists>e. build_model K token_count self = Inl (e, self))"
proof (cases "keras_accepts K (token_count self) self matrix")
  case False
  then show ?thesis
    using build_model_refused [of token_count self matrix K, OF assms] by simp
next
  case True
  let ?model = "\<lparr> model_inputs = branch_inputs self,
    model_outputs = merged_output (token_count self) self matrix \<rparr>"
  have build: "build_model K token_count self = Inr (self \<lparr> embed_model := Some ?model \<rparr>)"
    using build_model_accepted [of token_count self matrix K, OF assms True] .
  have "\<exists>model.
      build_model K token_count self = Inr (self \<lparr> embed_model := Some model \<rparr>) \<and>
      length (embedding_layers (model_outputs model)) = length (sequence_length self) \<and>
      (\<forall>layer \<in> set (embedding_layers (model_outputs model)).
         \<not> trainable layer \<and> weights layer = [matrix])"
  proof (intro exI conjI)
    show "build_model K token_count self = Inr (self \<lparr> embed_model := Some ?model \<rparr>)"
      by (rule build)
    show "length (embedding_layers (model_outputs ?model)) = length (sequence_length self)"
      by (simp add: embedding_layers_merged_output)
    show "\<forall>layer \<in> set (embedding_layers (model_outputs ?model)).
        \<not> trainable layer \<and> weights layer = [matrix]"
      by (auto simp: embedding_layers_merged_output layer_embedding_def)
  qed
  with True show ?thesis
    by simp
qed

theorem build_model_layers_frozen_shared_matrix_witness:
  "example_token_count built_embedding \<noteq> 0 \<and>
   w2v_vector_matrix built_embedding = Some built_matrix \<and>
   keras_accepts example_keras (example_token_count built_embedding) built_embedding built_matrix \<and>
   (\<exists>model.
      build_model example_keras example_token_count built_embedding =
        Inr (built_embedding \<lparr> embed_model := Some model \<rparr>) \<and>
      length (embedding_layers (model_outputs model)) = 2 \<and>
      list_all (\<lambda>layer. \<not> trainable layer \<and> weights layer = [built_matrix])
        (embedding_layers (model_outputs model)))"
proof -
  have tc: "example_token_count built_embedding \<noteq> 0"
    by (simp add: built_embedding_fields)
  have m: "w2v_vector_matrix built_embedding = Some built_matrix"
    by (rule built_embedding_fields)
  have ok: "keras_accepts example_keras (example_token_count built_embedding) built_embedding
      built_matrix"
    using built_embedding_accepted by (simp add: built_embedding_fields)
  obtain model where
    build: "build_model example_keras example_token_count built_embedding =
      Inr (built_embedding \<lparr> embed_model := Some model \<rparr>)"
    and len: "length (embedding_layers (model_outputs model)) =
      length (sequence_length built_embedding)"
    and frozen: "\<forall>layer \<in> set (embedding_layers (model_outputs model)).
      \<not> trainable layer \<and> weights layer = [built_matrix]"
    using build_model_layers_frozen_shared_matrix
      [of example_token_count built_embedding built_matrix example_keras, OF tc m] ok
    by auto
  have len': "length (embedding_layers (model_outputs model)) = 2"
    using len by (simp add: built_embedding_fields)
  have frozen': "list_all (\<lambda>layer. \<not> trainable layer \<and> weights layer = [built_matrix])
      (embedding_layers (model_outputs model))"
    using frozen by (simp add: list_all_iff)
  show ?thesis
    using tc m ok build len' frozen' by (intro conjI exI [of _ model])
qed



subsection \<open>Claims about \<^verbatim>\<open>analyze_corpus\<close>\<close>

lemma analyze_corpus_loaded:
  assumes "w2v_model_loaded self"
  shows "analyze_corpus load rng wrap_x wrap_y super_analyze_corpus x y self =
    (case wrap_x x of
       Inl e \<Rightarrow> Inl (e, self)
     | Inr x' \<Rightarrow>
         (case wrap_y y of
            Inl e \<Rightarrow> Inl (e, self)
          | Inr y' \<Rightarrow> super_analyze_corpus x' y' self))"
  using assms by (simp add: analyze_corpus_def split: sum.splits)

text \<open>
  C9. Once \<open>w2v_model_loaded\<close> is set, \<^verbatim>\<open>analyze_corpus\<close> does not build the token
  index again: a sequence of calls gives the same object whatever the loader and the
  generator of each call are, the flag stays set, and \<open>w2v_token2idx\<close>,
  \<open>w2v_vector_matrix\<close> and \<open>embedding_size\<close> are as before the calls. The base
  class's \<^verbatim>\<open>analyze_corpus\<close>, which every call ends with, is a parameter that
  leaves these four attributes alone.
\<close>

theorem analyze_corpus_loads_once:
  assumes loaded: "w2v_model_loaded self"
    and frame: "\<And>x y t.
      w2v_model_loaded (state_after (super_analyze_corpus x y t)) = w2v_model_loaded t \<and>
      w2v_token2idx (state_after (super_analyze_corpus x y t)) = w2v_token2idx t \<and>
      w2v_vector_matrix (state_after (super_analyze_corpus x y t)) = w2v_vector_matrix t \<and>
      embedding_size (state_after (super_analyze_corpus x y t)) = embedding_size t"
  shows "analyze_corpus_calls wrap_x wrap_y super_analyze_corpus calls self =
      analyze_corpus_calls wrap_x wrap_y super_analyze_corpus
        (map (\<lambda>call. (load', rng', snd (snd call))) calls) self \<and>
    w2v_model_loaded (analyze_corpus_calls wrap_x wrap_y super_analyze_corpus calls self) \<and>
    w2v_token2idx (analyze_corpus_calls wrap_x wrap_y super_analyze_corpus calls self) =
      w2v_token2idx self \<and>
    w2v_vector_matrix (analyze_corpus_calls wrap_x wrap_y super_analyze_corpus calls self) =
      w2v_vector_matrix self \<and>
    embedding_size (analyze_corpus_calls wrap_x wrap_y super_analyze_corpus calls self) =
      embedding_size self"
  using loaded
proof (induction calls arbitrary: self)
  case Nil
  then show ?case by simp
next
  case (Cons call calls)
  obtain load rng x y where call: "call = (load, rng, x, y)"
    by (cases call)
  let ?next = "state_after (analyze_corpus load rng wrap_x wrap_y super_analyze_corpus x y self)"
  have same: "analyze_corpus load rng wrap_x wrap_y super_analyze_corpus x y self =
      analyze_corpus load' rng' wrap_x wrap_y super_analyze_corpus x y self"
    using Cons.prems by (simp add: analyze_corpus_loaded)
  have kept: "w2v_model_loaded ?next = w2v_model_loaded self \<and>
      w2v_token2idx ?next = w2v_token2idx self \<and>
      w2v_vector_matrix ?next = w2v_vector_matrix self \<and>
      embedding_size ?next = embedding_size self"
    using frame by (simp add: analyze_corpus_loaded [OF Cons.prems] split: sum.splits)
  then have "w2v_model_loaded ?next"
    using Cons.prems by simp
  note ih = Cons.IH [OF this]
  have here: "analyze_corpus_calls wrap_x wrap_y super_analyze_corpus (call # calls) self =
      analyze_corpus_calls wrap_x wrap_y super_analyze_corpus calls ?next"
    by (simp add: call)
  have there: "analyze_corpus_calls wrap_x wrap_y super_analyze_corpus
        (map (\<lambda>call. (load', rng', snd (snd call))) (call # calls)) self =
      analyze_corpus_calls wrap_x wrap_y super_analyze_corpus
        (map (\<lambda>call. (load', rng', snd (snd call))) calls) ?next"
    by (simp add: call same)
  show ?case
    unfolding here there using ih kept by auto
qed

theorem analyze_corpus_loads_once_witness:
  "w2v_model_loaded built_embedding \<and>
   analyze_corpus_calls Inr Inr example_super_analyze_corpus
       [(example_load, example_rng, (), ()), (example_load, example_rng, (), ())] built_embedding =
     analyze_corpus_calls Inr Inr example_super_analyze_corpus
       [(failing_load, example_rng, (), ()), (failing_load, example_rng, (), ())] built_embedding \<and>
   w2v_vector_matrix
     (analyze_corpus_calls Inr Inr example_super_analyze_corpus
       [(example_load, example_rng, (), ()), (example_load, example_rng, (), ())] built_embedding) =
     Some built_matrix \<and>
   embedding_size
     (analyze_corpus_calls Inr Inr example_super_analyze_corpus
       [(example_load, example_rng, (), ()), (example_load, example_rng, (), ())] built_embedding) = 2"
proof -
  have loaded: "w2v_model_loaded built_embedding"
    by (rule built_embedding_fields)
  have frame: "w2v_model_loaded (state_after (example_super_analyze_corpus x y t)) = w2v_model_loaded t \<and>
      w2v_token2idx (state_after (example_super_analyze_corpus x y t)) = w2v_token2idx t \<and>
      w2v_vector_matrix (state_after (example_super_analyze_corpus x y t)) = w2v_vector_matrix t \<and>
      embedding_size (state_after (example_super_analyze_corpus x y t)) = embedding_size t"
    for x y t
    unfolding example_super_analyze_corpus_def by (rule build_model_keeps_w2v)
  note once = analyze_corpus_loads_once
    [of built_embedding example_super_analyze_corpus Inr Inr
      "[(example_load, example_rng, (), ()), (example_load, example_rng, (), ())]"
      failing_load example_rng, OF loaded frame]
  have mapped: "map (\<lambda>call. (failing_load, example_rng, snd (snd call)))
        [(example_load, example_rng, (), ()), (example_load, example_rng, (), ())] =
      [(failing_load, example_rng, (), ()), (failing_load, example_rng, (), ())]"
    by simp
  note once' = once [unfolded mapped]
  show ?thesis
    using loaded once' [THEN conjunct1] once' [THEN conjunct2]
    by (simp only: built_embedding_fields simp_thms)
qed

end
